theory Spec2Isabelle
  imports Complex_Main
begin

section \<open>Numeric values\<close>

text \<open>
  The estimators of \<^verbatim>\<open>simulation.py\<close> compute with NumPy \<^verbatim>\<open>float64\<close> values.
  A finite value is modelled by the real number it stands for (rounding and overflow are
  abstracted: sums, differences, squares and quotients of finite values are exact), and the
  three non-finite values that NumPy returns where Python's own arithmetic would raise are
  kept apart. NumPy arithmetic never raises: a division by zero only emits a
  \<^verbatim>\<open>RuntimeWarning\<close> and returns \<^verbatim>\<open>nan\<close> or an infinity.
\<close>

datatype npfloat = Fin real | PInf | NInf | NaN

datatype py_error = ValueError

fun np_add :: "npfloat \<Rightarrow> npfloat \<Rightarrow> npfloat" where
  "np_add (Fin a) (Fin b) = Fin (a + b)"
| "np_add NaN _ = NaN"
| "np_add _ NaN = NaN"
| "np_add PInf NInf = NaN"
| "np_add NInf PInf = NaN"
| "np_add PInf _ = PInf"
| "np_add NInf _ = NInf"
| "np_add (Fin a) PInf = PInf"
| "np_add (Fin a) NInf = NInf"

fun np_subtract :: "npfloat \<Rightarrow> npfloat \<Rightarrow> npfloat" where
  "np_subtract (Fin a) (Fin b) = Fin (a - b)"
| "np_subtract NaN _ = NaN"
| "np_subtract _ NaN = NaN"
| "np_subtract PInf PInf = NaN"
| "np_subtract NInf NInf = NaN"
| "np_subtract PInf _ = PInf"
| "np_subtract NInf _ = NInf"
| "np_subtract (Fin a) PInf = NInf"
| "np_subtract (Fin a) NInf = PInf"

text \<open>\<^verbatim>\<open>v ** 2\<close> on a float array squares each element.\<close>

fun np_square :: "npfloat \<Rightarrow> npfloat" where
  "np_square (Fin a) = Fin (a ^ 2)"
| "np_square PInf = PInf"
| "np_square NInf = PInf"
| "np_square NaN = NaN"

text \<open>
  \<^verbatim>\<open>v / d\<close> for a NumPy float \<^verbatim>\<open>v\<close> and a Python integer \<^verbatim>\<open>d\<close>. The left operand
  is a NumPy scalar, so NumPy's division is the one that runs: with \<^verbatim>\<open>d = 0\<close> it returns
  \<^verbatim>\<open>nan\<close> for a zero numerator and an infinity otherwise, and does not raise
  \<^verbatim>\<open>ZeroDivisionError\<close>.
\<close>

fun np_true_divide :: "npfloat \<Rightarrow> int \<Rightarrow> npfloat" where
  "np_true_divide (Fin a) d =
     (if d = 0 then (if a = 0 then NaN else if 0 < a then PInf else NInf)
      else Fin (a / real_of_int d))"
| "np_true_divide PInf d = (if d < 0 then NInf else PInf)"
| "np_true_divide NInf d = (if d < 0 then PInf else NInf)"
| "np_true_divide NaN d = NaN"

text \<open>\<^verbatim>\<open>np.array(x)\<close> of a list of (finite) numbers.\<close>

definition np_array :: "real list \<Rightarrow> npfloat list" where
  "np_array x = map Fin x"

text \<open>\<^verbatim>\<open>np.sum\<close>: the sum of the elements, \<^verbatim>\<open>0.0\<close> for an empty array.\<close>

definition np_sum :: "npfloat list \<Rightarrow> npfloat" where
  "np_sum a = foldl np_add (Fin 0) a"

text \<open>
  \<^verbatim>\<open>np.mean\<close>: the sum divided by the number of elements; for an empty array this is
  \<^verbatim>\<open>0.0 / 0\<close>, that is \<^verbatim>\<open>nan\<close> (with a warning, not an exception).
\<close>

definition np_mean :: "npfloat list \<Rightarrow> npfloat" where
  "np_mean a = np_true_divide (np_sum a) (int (length a))"


section \<open>Population\<close>

text \<open>
  \<^verbatim>\<open>population = list(range(1, 21))\<close> and \<^verbatim>\<open>true_variance = np.var(population)\<close>, two
  module-level names that no later statement of the script assigns again.
\<close>

definition population :: "real list" where
  "population = map real [1..<21]"


section \<open>Variance functions\<close>

text \<open>
  \<^verbatim>\<open>
  def variance_n(x):
      m = np.mean(x)
      return np.mean((np.array(x) - m) ** 2)

  def variance_n1(x):
      m = np.mean(x)
      return np.sum((np.array(x) - m) ** 2) / (len(x) - 1)
  \<close>
\<close>

definition variance_n :: "real list \<Rightarrow> npfloat" where
  "variance_n x =
     (let m = np_mean (np_array x)
      in np_mean (map (\<lambda>v. np_square (np_subtract v m)) (np_array x)))"

definition variance_n1 :: "real list \<Rightarrow> npfloat" where
  "variance_n1 x =
     (let m = np_mean (np_array x)
      in np_true_divide (np_sum (map (\<lambda>v. np_square (np_subtract v m)) (np_array x)))
           (int (length x) - 1))"

text \<open>
  The estimators in the words of their description: the sample mean, and the sum of the
  squared deviations from it.
\<close>

definition sample_mean :: "real list \<Rightarrow> real" where
  "sample_mean x = sum_list x / real (length x)"

definition sum_sq_dev :: "real list \<Rightarrow> real" where
  "sum_sq_dev x = (\<Sum>v\<leftarrow>x. (v - sample_mean x) ^ 2)"

text \<open>Comparison of two NumPy floats by \<^verbatim>\<open><=\<close>: false as soon as one side is \<^verbatim>\<open>nan\<close>.\<close>

fun np_le :: "npfloat \<Rightarrow> npfloat \<Rightarrow> bool" where
  "np_le (Fin a) (Fin b) = (a \<le> b)"
| "np_le NaN _ = False"
| "np_le _ NaN = False"
| "np_le NInf _ = True"
| "np_le _ PInf = True"
| "np_le PInf _ = False"
| "np_le _ NInf = False"

section \<open>Session state and controls\<close>

text \<open>
  \<^verbatim>\<open>st.session_state\<close> holds \<^verbatim>\<open>running\<close>, \<^verbatim>\<open>var_n\<close> and \<^verbatim>\<open>var_n1\<close>; it is created
  not running with two empty lists, and it outlives each run of the script.
\<close>

record session_state =
  running :: bool
  var_n :: "npfloat list"
  var_n1 :: "npfloat list"

definition init_state :: session_state where
  "init_state = \<lparr>running = False, var_n = [], var_n1 = []\<rparr>"

text \<open>The body of the Start / Pause button: \<^verbatim>\<open>running = not running\<close>.\<close>

definition toggle :: "session_state \<Rightarrow> session_state" where
  "toggle s = s\<lparr>running := \<not> running s\<rparr>"

text \<open>The body of the Clear / Reset button.\<close>

definition reset :: "session_state \<Rightarrow> session_state" where
  "reset s = s\<lparr>running := False, var_n := [], var_n1 := []\<rparr>"

section \<open>Simulation loop\<close>



definition random_sample :: "'a list \<Rightarrow> int \<Rightarrow> nat list \<Rightarrow> py_error + 'a list" where
  "random_sample pop n idxs =
     (if n < 0 \<or> int (length pop) < n then Inl ValueError
      else Inr (map (\<lambda>i. pop ! i) idxs))"

text \<open>
  One pass through the body of \<^verbatim>\<open>while st.session_state.running\<close>, with the population it
  samples from as a parameter. \<^verbatim>\<open>plot_simulation()\<close> and \<^verbatim>\<open>time.sleep\<close> read the session
  state and never write it, so they are no part of the state change; whatever the rendering
  call does, it runs after both appends.
\<close>

definition loop_body :: "real list \<Rightarrow> session_state \<Rightarrow> int \<Rightarrow> nat list \<Rightarrow> py_error + session_state" where
  "loop_body pop s n idxs =
     (case random_sample pop n idxs of
        Inl e \<Rightarrow> Inl e
      | Inr sample \<Rightarrow>
          Inr (s\<lparr>var_n := var_n s @ [variance_n sample],
                 var_n1 := var_n1 s @ [variance_n1 sample]\<rparr>))"

text \<open>
  The operations on the session: the two buttons, and a loop iteration with its two draws.
  The loop tests \<^verbatim>\<open>running\<close> before each pass, so an iteration in a state that is not
  running does nothing.
\<close>

datatype operation = Toggle | Reset | Iteration int "nat list"

fun apply_operation :: "session_state \<Rightarrow> operation \<Rightarrow> py_error + session_state" where
  "apply_operation s Toggle = Inr (toggle s)"
| "apply_operation s Reset = Inr (reset s)"
| "apply_operation s (Iteration n idxs) =
     (if running s then loop_body population s n idxs else Inr s)"




section \<open>The estimators as arithmetic\<close>

lemma foldl_np_add_Fin: "foldl np_add (Fin a) (map Fin x) = Fin (a + sum_list x)"
  by (induction x arbitrary: a) (simp_all add: add.assoc)

lemma np_sum_Fin: "np_sum (map Fin x) = Fin (sum_list x)"
  by (simp add: np_sum_def foldl_np_add_Fin)

lemma np_mean_Fin: "x \<noteq> [] \<Longrightarrow> np_mean (map Fin x) = Fin (sum_list x / real (length x))"
  by (simp add: np_mean_def np_sum_Fin)

lemma sq_dev_Fin:
  "map (\<lambda>v. np_square (np_subtract v (Fin m))) (map Fin x) = map Fin (map (\<lambda>v. (v - m) ^ 2) x)"
  by simp

lemma variance_n_arith:
  assumes "x \<noteq> []"
  shows "variance_n x = Fin (sum_sq_dev x / real (length x))"
proof -
  let ?sq = "map (\<lambda>v. (v - sample_mean x) ^ 2) x"
  have m: "np_mean (np_array x) = Fin (sample_mean x)"
    using assms by (simp add: np_array_def np_mean_Fin sample_mean_def)
  have "variance_n x = np_mean (map Fin ?sq)"
    unfolding variance_n_def Let_def m unfolding np_array_def sq_dev_Fin ..
  also have "\<dots> = Fin (sum_list ?sq / real (length ?sq))"
    using assms by (intro np_mean_Fin) simp
  finally show ?thesis
    by (simp add: sum_sq_dev_def)
qed

lemma variance_n1_arith:
  assumes "2 \<le> length x"
  shows "variance_n1 x = Fin (sum_sq_dev x / (real (length x) - 1))"
proof -
  let ?sq = "map (\<lambda>v. (v - sample_mean x) ^ 2) x"
  from assms have ne: "x \<noteq> []" by auto
  have m: "np_mean (np_array x) = Fin (sample_mean x)"
    using ne by (simp add: np_array_def np_mean_Fin sample_mean_def)
  have d: "int (length x) - 1 \<noteq> 0" using assms by simp
  have "variance_n1 x = np_true_divide (np_sum (map Fin ?sq)) (int (length x) - 1)"
    unfolding variance_n1_def Let_def m unfolding np_array_def sq_dev_Fin ..
  also have "\<dots> = np_true_divide (Fin (sum_sq_dev x)) (int (length x) - 1)"
    unfolding np_sum_Fin sum_sq_dev_def ..
  also have "\<dots> = Fin (sum_sq_dev x / (real (length x) - 1))"
    using d by simp
  finally show ?thesis .
qed

lemma variance_n_singleton: "variance_n [a] = Fin 0"
  by (simp add: variance_n_arith sum_sq_dev_def sample_mean_def)

text \<open>
  C1. For a sample of size at least 1, \<open>variance_n\<close> is the mean of the squared deviations
  from the sample mean (divisor \<open>n\<close>), and it is 0 for a sample of size 1; for a sample of
  size at least 2, \<open>variance_n1\<close> is the sum of the squared deviations from the sample mean
  divided by \<open>n - 1\<close>. On the sample 1, 2, 3 they return 2/3 and 1.
\<close>

theorem variance_formulas:
  "(x \<noteq> [] \<longrightarrow> variance_n x = Fin ((\<Sum>v\<leftarrow>x. (v - sum_list x / real (length x)) ^ 2) / real (length x)))
   \<and> variance_n [a] = Fin 0
   \<and> (2 \<le> length x \<longrightarrow>
        variance_n1 x = Fin ((\<Sum>v\<leftarrow>x. (v - sum_list x / real (length x)) ^ 2) / (real (length x) - 1)))
   \<and> variance_n [1, 2, 3] = Fin (2 / 3)
   \<and> variance_n1 [1, 2, 3] = Fin 1"
proof -
  have ex_n: "variance_n [1, 2, 3] = Fin (2 / 3)"
    by (simp add: variance_n_arith sum_sq_dev_def sample_mean_def)
  have ex_n1: "variance_n1 [1, 2, 3] = Fin 1"
    by (simp add: variance_n1_arith sum_sq_dev_def sample_mean_def)
  show ?thesis
    using variance_n_arith [of x] variance_n1_arith [of x] variance_n_singleton [of a] ex_n ex_n1
    by (simp add: sum_sq_dev_def sample_mean_def)
qed

theorem variance_formulas_witness:
  "[4, 8 :: real] \<noteq> [] \<and> 2 \<le> length [4, 8 :: real]
   \<and> variance_n [4, 8] = Fin 4 \<and> variance_n1 [4, 8] = Fin 8 \<and> variance_n [7] = Fin 0"
  using variance_formulas [of "[4, 8]" 7]
  by (simp add: power2_eq_square)

section \<open>Comparing the two estimators\<close>

lemma sum_sq_dev_nonneg: "0 \<le> sum_sq_dev x"
  unfolding sum_sq_dev_def by (rule sum_list_nonneg) auto









text \<open>
  C10. \<open>variance_n\<close> of a non-empty sample is at least 0, and so is \<open>variance_n1\<close> of a
  sample of size at least 2.
\<close>

theorem estimators_nonnegative:
  "(x \<noteq> [] \<longrightarrow> np_le (Fin 0) (variance_n x))
   \<and> (2 \<le> length x \<longrightarrow> np_le (Fin 0) (variance_n1 x))"
proof (intro conjI impI)
  assume "x \<noteq> []"
  then show "np_le (Fin 0) (variance_n x)"
    using sum_sq_dev_nonneg [of x] by (simp add: variance_n_arith)
next
  assume n: "2 \<le> length x"
  then have "0 < real (length x) - 1" by simp
  then show "np_le (Fin 0) (variance_n1 x)"
    using sum_sq_dev_nonneg [of x] n by (simp add: variance_n1_arith)
qed

theorem estimators_nonnegative_witness:
  "[3, 9 :: real] \<noteq> [] \<and> 2 \<le> length [3, 9 :: real]
   \<and> np_le (Fin 0) (variance_n [3, 9]) \<and> np_le (Fin 0) (variance_n1 [3, 9])"
  using estimators_nonnegative [of "[3, 9]"]
  by simp

section \<open>A sample of size one\<close>




section \<open>The population and its variance\<close>






section \<open>The controls\<close>

text \<open>
  C5. Reset, in any state, gives a state that is not running and has both histories empty:
  the initial state.
\<close>

theorem reset_clears:
  "running (reset s) = False \<and> var_n (reset s) = [] \<and> var_n1 (reset s) = []
   \<and> reset s = init_state \<and> apply_operation s Reset = Inr init_state"
  by (simp add: reset_def init_state_def)

text \<open>
  C8. Toggle flips the running flag and leaves both histories as they are: from the initial
  (idle) state it gives a running state, and a second toggle gives the idle state back.
  \<open>true_variance\<close> is a constant outside the session state.
\<close>

theorem toggle_flips_running:
  "running (toggle s) = (\<not> running s) \<and> var_n (toggle s) = var_n s
   \<and> var_n1 (toggle s) = var_n1 s \<and> toggle (toggle s) = s
   \<and> apply_operation s Toggle = Inr (toggle s)
   \<and> running (toggle init_state) = True \<and> toggle (toggle init_state) = init_state"
  by (simp add: toggle_def init_state_def)

section \<open>The loop\<close>















end
